theory Spec2Isabelle
  imports Complex_Main "HOL-Library.Word"
begin

section \<open>The onboard optical-flow driver of AP-HAL-Linux (OpticalFlow-Onboard.cpp)\<close>

text \<open>
  The driver object is embedded as a record that is passed through \<open>init\<close>, \<open>read\<close>
  and the acquisition loop \<open>_run_optflow\<close>. Every \<open>AP_HAL::panic\<close> of the source is a
  value of the type \<open>error\<close>. The collaborators whose code is outside the file (the video
  device, the gyro callback, the flow estimator, \<open>malloc\<close>, the pthread calls) answer
  through explicit inputs, and the calls made on them are written to a list of events.
  The two critical sections under \<open>_mutex\<close> are each one atomic step of the model.
\<close>

subsection \<open>Machine types\<close>

type_synonym u8 = "8 word"
type_synonym u32 = "32 word"

text \<open>A pointer is an address; \<open>NULL\<close> is address 0.\<close>

type_synonym ptr = nat

abbreviation NULL :: ptr where
  "NULL \<equiv> 0"

text \<open>
  The C type \<open>float\<close> is the type variable \<open>'f\<close> of the sort
  \<open>{zero, plus, times, inverse}\<close>: the classes give the symbols \<open>0\<close>, \<open>+\<close>, \<open>*\<close> and
  \<open>/\<close> and no law about them, so nothing proved below depends on associativity,
  on exact division or on any other property that rounding breaks. The literal
  \<open>2.0f\<close>, the conversion of a \<open>uint32_t\<close> to \<open>float\<close> and the value of the macro
  \<open>HAL_FLOW_PX4_FOCAL_LENGTH_MILLIPX\<close> (defined in a board header that is not among
  the sources, and taken as one value) are the fields of \<open>floats\<close>.
\<close>

record 'f floats =
  float_2 :: 'f
  float_of_u32 :: "u32 \<Rightarrow> 'f"
  focal_length_millipx :: 'f

record 'f vector3 =
  vec_x :: 'f
  vec_y :: 'f
  vec_z :: 'f

definition zero_vector3 :: "('f::zero) vector3" where
  "zero_vector3 = \<lparr>vec_x = 0, vec_y = 0, vec_z = 0\<rparr>"

text \<open>\<open>VideoIn::Frame\<close>: the fields the driver uses.\<close>

record frame =
  timestamp :: u32
  data :: ptr

text \<open>\<open>AP_HAL::OpticalFlow::Data_Frame\<close>, the record \<open>read\<close> fills for its caller.\<close>

record 'f data_frame =
  pixel_flow_x_integral :: 'f
  pixel_flow_y_integral :: 'f
  gyro_x_integral :: 'f
  gyro_y_integral :: 'f
  delta_time :: u32
  quality :: u8

text \<open>
  The members of \<open>OpticalFlow_Onboard\<close>. A member \<open>_name\<close> of the source is the
  field \<open>m_name\<close>. The header that declares them is not among the sources; the
  types are those the file uses them at: the flags are \<open>bool\<close>, the geometry, the
  format and the timespan are \<open>uint32_t\<close>, the quality is \<open>uint8_t\<close>, the four
  integrals are \<open>float\<close>. The timestamp of a frame is a \<open>uint32_t\<close>, so an elapsed
  time is a difference modulo \<open>2^32\<close>.
\<close>

record 'f optflow =
  m_initialized :: bool
  m_data_available :: bool
  m_crop_by_software :: bool
  m_shrink_by_software :: bool
  m_camera_output_width :: u32
  m_camera_output_height :: u32
  m_width :: u32
  m_height :: u32
  m_format :: u32
  m_bytesperline :: u32
  m_sizeimage :: u32
  m_pixel_flow_x_integral :: 'f
  m_pixel_flow_y_integral :: 'f
  m_gyro_x_integral :: 'f
  m_gyro_y_integral :: 'f
  m_integration_timespan :: u32
  m_surface_quality :: u8
  m_last_video_frame :: frame
  m_last_gyro_rate :: "'f vector3"

subsection \<open>\<open>OpticalFlow_Onboard::read\<close>\<close>

text \<open>
  \<open>frame\<close> is passed by reference: the result is the returned flag, the caller's record
  after the call and the driver after the call.
\<close>

definition read :: "('f::zero) optflow \<Rightarrow> 'f data_frame \<Rightarrow> bool \<times> 'f data_frame \<times> 'f optflow" where
  "read s frame =
     (if \<not> m_data_available s then (False, frame, s)
      else
        (True,
         frame\<lparr>pixel_flow_x_integral := m_pixel_flow_x_integral s,
               pixel_flow_y_integral := m_pixel_flow_y_integral s,
               gyro_x_integral := m_gyro_x_integral s,
               gyro_y_integral := m_gyro_y_integral s,
               delta_time := m_integration_timespan s,
               quality := m_surface_quality s\<rparr>,
         s\<lparr>m_integration_timespan := 0,
           m_pixel_flow_x_integral := 0,
           m_pixel_flow_y_integral := 0,
           m_gyro_x_integral := 0,
           m_gyro_y_integral := 0,
           m_data_available := False\<rparr>))"

subsection \<open>Compile-time constants\<close>

text \<open>
  The \<open>HAL_OPTFLOW_ONBOARD_*\<close> macros come from the board headers, which are not among
  the sources, so they are parameters. They are integer constants of C type \<open>int\<close>;
  an expression of two of them is evaluated in \<open>int\<close> (division truncates toward zero)
  and an expression with a \<open>uint32_t\<close> operand converts them to \<open>uint32_t\<close>.
\<close>

datatype board = Bebop | Minlure | BBBMini

record config =
  board_subtype :: board
  vdev_path_is_null :: bool
  nbufs :: int
  output_width :: int
  output_height :: int
  crop_width :: int
  crop_height :: int
  sensor_width :: int
  sensor_height :: int

definition u32_of_int :: "int \<Rightarrow> u32" where
  "u32_of_int i = word_of_int i"

definition c_int_div :: "int \<Rightarrow> int \<Rightarrow> int" where
  "c_int_div a b = sgn a * sgn b * (\<bar>a\<bar> div \<bar>b\<bar>)"

text \<open>The fourcc codes of \<open>linux/videodev2.h\<close>.\<close>

definition V4L2_PIX_FMT_NV12 :: u32 where
  "V4L2_PIX_FMT_NV12 = 0x3231564E"

definition V4L2_PIX_FMT_GREY :: u32 where
  "V4L2_PIX_FMT_GREY = 0x59455247"

definition V4L2_PIX_FMT_YUYV :: u32 where
  "V4L2_PIX_FMT_YUYV = 0x56595559"

subsection \<open>Errors\<close>

text \<open>
  One constructor for each \<open>AP_HAL::panic\<close> of the file, and one for the division
  by a zero target dimension, which the source does not guard.
\<close>

datatype error =
    Couldnt_Open_Video_Device
  | Couldnt_Set_Subdev_Fmt
  | Couldnt_Set_Video_Format
  | Format_Not_Supported
  | Couldnt_Allocate_Video_Buffers
  | Failed_To_Init_Mutex
  | Failed_To_Init_Attr
  | Failed_To_Create_Thread
  | Couldnt_Allocate_Conversion_Buffer
  | Couldnt_Allocate_Crop_Buffer
  | Couldnt_Get_Frame
  | Division_By_Zero

subsection \<open>\<open>OpticalFlow_Onboard::init\<close>\<close>

text \<open>
  What the video device, the camera sub-device and the pthread library answer
  during \<open>init\<close>. \<open>set_format\<close> receives the requested width, height and format and
  answers with the actual width, height, format, bytes per line and image size, or
  fails; \<open>set_crop\<close> receives left, top, width and height. The calls of \<open>init\<close>
  with no result that \<open>init\<close> reads (the PWM of the Bebop camera, \<open>prepare_capture\<close>,
  the construction of \<open>Flow_PX4\<close>, the three \<open>pthread_attr_set*\<close>) and the stored
  callback \<open>_get_gyro\<close> leave no trace in the driver record.
\<close>

record init_env =
  open_device :: bool
  subdev_set_format :: bool
  pixel_formats :: "u32 list"
  set_format :: "u32 \<Rightarrow> u32 \<Rightarrow> u32 \<Rightarrow> (u32 \<times> u32 \<times> u32 \<times> u32 \<times> u32) option"
  set_crop :: "u32 \<Rightarrow> u32 \<Rightarrow> u32 \<Rightarrow> u32 \<Rightarrow> bool"
  allocate_buffers :: "int \<Rightarrow> bool"
  pthread_mutex_init :: int
  pthread_attr_init :: int
  pthread_create :: int

text \<open>
  The loop over the enumerated pixel formats (Minlure and BBBmini): the first NV12
  or GREY entry ends the search; a YUYV entry is kept while the search goes on.
\<close>

fun select_format :: "u32 list \<Rightarrow> u32 \<Rightarrow> u32" where
  "select_format [] fmt = fmt"
| "select_format (px_fmt # rest) fmt =
     (if px_fmt = V4L2_PIX_FMT_NV12 \<or> px_fmt = V4L2_PIX_FMT_GREY then px_fmt
      else if px_fmt = V4L2_PIX_FMT_YUYV then select_format rest px_fmt
      else select_format rest fmt)"

text \<open>Lines 122 to 137: the camera geometry against the target geometry.\<close>

definition init_shrink :: "config \<Rightarrow> 'f optflow \<Rightarrow> 'f optflow" where
  "init_shrink cfg s =
     (if m_width s = u32_of_int (output_width cfg) \<and> m_height s = u32_of_int (output_height cfg)
      then s\<lparr>m_shrink_by_software := False\<rparr>
      else s\<lparr>m_shrink_by_software := True,
             m_camera_output_width := m_width s,
             m_camera_output_height := m_height s,
             m_width := u32_of_int (output_width cfg),
             m_height := u32_of_int (output_height cfg),
             m_bytesperline := u32_of_int (output_width cfg)\<rparr>)"

text \<open>Lines 139 to 156: the hardware crop, and the software crop when it is refused.\<close>

definition init_crop :: "config \<Rightarrow> init_env \<Rightarrow> 'f optflow \<Rightarrow> 'f optflow" where
  "init_crop cfg env s =
     (let top' = 0;
          left = u32_of_int (c_int_div (sensor_width cfg - sensor_height cfg) 2)
      in if set_crop env left top' (u32_of_int (crop_width cfg)) (u32_of_int (crop_height cfg))
         then s\<lparr>m_crop_by_software := False\<rparr>
         else if \<not> m_shrink_by_software s
         then s\<lparr>m_crop_by_software := True,
                m_camera_output_width := m_width s,
                m_camera_output_height := m_height s,
                m_width := u32_of_int (output_width cfg),
                m_height := u32_of_int (output_height cfg),
                m_bytesperline := u32_of_int (output_width cfg)\<rparr>
         else s\<lparr>m_crop_by_software := True\<rparr>)"

text \<open>Lines 158 to 189: the buffers, the mutex and the thread.\<close>

definition init_finish :: "config \<Rightarrow> init_env \<Rightarrow> 'f optflow \<Rightarrow> error + 'f optflow" where
  "init_finish cfg env s =
     (if \<not> allocate_buffers env (nbufs cfg) then Inl Couldnt_Allocate_Video_Buffers
      else if pthread_mutex_init env \<noteq> 0 then Inl Failed_To_Init_Mutex
      else if pthread_attr_init env \<noteq> 0 then Inl Failed_To_Init_Attr
      else if pthread_create env \<noteq> 0 then Inl Failed_To_Create_Thread
      else Inr (s\<lparr>m_initialized := True\<rparr>))"

text \<open>Lines 112 to 120 and the rest: the negotiation of the format and its check.\<close>

definition init_negotiate :: "config \<Rightarrow> init_env \<Rightarrow> 'f optflow \<Rightarrow> error + 'f optflow" where
  "init_negotiate cfg env s =
     (case set_format env (m_width s) (m_height s) (m_format s) of
        None \<Rightarrow> Inl Couldnt_Set_Video_Format
      | Some (w, h, f, bpl, sz) \<Rightarrow>
          if f \<noteq> V4L2_PIX_FMT_NV12 \<and> f \<noteq> V4L2_PIX_FMT_GREY \<and> f \<noteq> V4L2_PIX_FMT_YUYV
          then Inl Format_Not_Supported
          else init_finish cfg env
                 (init_crop cfg env
                    (init_shrink cfg
                       (s\<lparr>m_width := w, m_height := h, m_format := f,
                          m_bytesperline := bpl, m_sizeimage := sz\<rparr>))))"

text \<open>
  Lines 91 to 109: the format asked of the device. The Bebop asks for NV12; the
  other boards search the formats the device enumerates, starting from the member.
\<close>

definition requested_format :: "config \<Rightarrow> init_env \<Rightarrow> 'f optflow \<Rightarrow> u32" where
  "requested_format cfg env s =
     (case board_subtype cfg of
        Bebop \<Rightarrow> V4L2_PIX_FMT_NV12
      | _ \<Rightarrow> select_format (pixel_formats env) (m_format s))"

definition init :: "config \<Rightarrow> init_env \<Rightarrow> 'f optflow \<Rightarrow> error + 'f optflow" where
  "init cfg env s =
     (if m_initialized s then Inr s
      else if vdev_path_is_null cfg \<or> \<not> open_device env then Inl Couldnt_Open_Video_Device
      else if board_subtype cfg = Bebop \<and> \<not> subdev_set_format env then Inl Couldnt_Set_Subdev_Fmt
      else init_negotiate cfg env
             (s\<lparr>m_width := u32_of_int (output_width cfg),
                m_height := u32_of_int (output_height cfg),
                m_format := requested_format cfg env s\<rparr>))"

text \<open>
  Modelled from the spec: the constructor of \<open>OpticalFlow_Onboard\<close> and the member
  initialisers of its header are not among the sources. The spec has the integrator
  zeroed at construction, no previous frame cached before the first iteration and
  the flags decided by \<open>init\<close>; the default \<open>Vector3f\<close> is the zero vector.
\<close>

definition constructed :: "('f::zero) optflow" where
  "constructed =
     \<lparr>m_initialized = False, m_data_available = False,
      m_crop_by_software = False, m_shrink_by_software = False,
      m_camera_output_width = 0, m_camera_output_height = 0,
      m_width = 0, m_height = 0, m_format = 0, m_bytesperline = 0, m_sizeimage = 0,
      m_pixel_flow_x_integral = 0, m_pixel_flow_y_integral = 0,
      m_gyro_x_integral = 0, m_gyro_y_integral = 0,
      m_integration_timespan = 0, m_surface_quality = 0,
      m_last_video_frame = \<lparr>timestamp = 0, data = NULL\<rparr>,
      m_last_gyro_rate = zero_vector3\<rparr>"

subsection \<open>\<open>OpticalFlow_Onboard::_run_optflow\<close>: the set-up before the loop\<close>

record locals =
  convert_buffer_size :: u32
  output_buffer_size :: u32
  crop_left :: u32
  crop_top :: u32
  shrink_scale :: u32
  shrink_width :: u32
  shrink_height :: u32
  shrink_width_offset :: u32
  shrink_height_offset :: u32
  convert_buffer :: ptr
  output_buffer :: ptr

definition initial_locals :: locals where
  "initial_locals =
     \<lparr>convert_buffer_size = 0, output_buffer_size = 0, crop_left = 0, crop_top = 0,
      shrink_scale = 0, shrink_width = 0, shrink_height = 0,
      shrink_width_offset = 0, shrink_height_offset = 0,
      convert_buffer = NULL, output_buffer = NULL\<rparr>"

text \<open>The two answers of \<open>malloc\<close>.\<close>

record run_env =
  malloc_convert_buffer :: ptr
  malloc_output_buffer :: ptr

text \<open>Lines 240 to 251.\<close>

definition alloc_convert_buffer :: "run_env \<Rightarrow> 'f optflow \<Rightarrow> locals \<Rightarrow> error + locals" where
  "alloc_convert_buffer env s l =
     (if m_format s = V4L2_PIX_FMT_YUYV then
        let l1 = l\<lparr>convert_buffer_size :=
                      (if m_shrink_by_software s \<or> m_crop_by_software s
                       then m_camera_output_width s * m_camera_output_height s
                       else m_width s * m_height s),
                    convert_buffer := malloc_convert_buffer env\<rparr>
        in if convert_buffer l1 = NULL then Inl Couldnt_Allocate_Conversion_Buffer else Inr l1
      else Inr l)"

text \<open>Lines 253 to 265.\<close>

definition alloc_output_buffer :: "config \<Rightarrow> run_env \<Rightarrow> 'f optflow \<Rightarrow> locals \<Rightarrow> error + locals" where
  "alloc_output_buffer cfg env s l =
     (if m_shrink_by_software s \<or> m_crop_by_software s then
        let l1 = l\<lparr>output_buffer_size := u32_of_int (output_width cfg * output_height cfg),
                    output_buffer := malloc_output_buffer env\<rparr>
        in if output_buffer l1 = NULL then Inl Couldnt_Allocate_Crop_Buffer else Inr l1
      else Inr l)"

text \<open>
  Lines 267 to 286: the shrink factor and the shrunk region, or the crop window.
  All of it is \<open>uint32_t\<close> arithmetic, except \<open>OUTPUT / 2\<close>, which divides two
  \<open>int\<close> constants.
\<close>

definition shrink_geometry :: "config \<Rightarrow> 'f optflow \<Rightarrow> locals \<Rightarrow> error + locals" where
  "shrink_geometry cfg s l =
     (let divisor = (if m_camera_output_width s > m_camera_output_height s
                     then u32_of_int (output_height cfg) else u32_of_int (output_width cfg))
      in if divisor = 0 then Inl Division_By_Zero
         else
           let scale = (if m_camera_output_width s > m_camera_output_height s
                        then m_camera_output_height s div u32_of_int (output_height cfg)
                        else m_camera_output_width s div u32_of_int (output_width cfg));
               sw = u32_of_int (output_width cfg) * scale;
               sh = u32_of_int (output_height cfg) * scale
           in Inr (l\<lparr>shrink_scale := scale, shrink_width := sw, shrink_height := sh,
                     shrink_width_offset := (m_camera_output_width s - sw) div 2,
                     shrink_height_offset := (m_camera_output_height s - sh) div 2\<rparr>))"

definition crop_geometry :: "config \<Rightarrow> 'f optflow \<Rightarrow> locals \<Rightarrow> locals" where
  "crop_geometry cfg s l =
     l\<lparr>crop_left := m_camera_output_width s div 2 - u32_of_int (c_int_div (output_width cfg) 2),
       crop_top := m_camera_output_height s div 2 - u32_of_int (c_int_div (output_height cfg) 2)\<rparr>"

definition run_optflow_setup :: "config \<Rightarrow> run_env \<Rightarrow> 'f optflow \<Rightarrow> error + locals" where
  "run_optflow_setup cfg env s =
     (case alloc_convert_buffer env s initial_locals of
        Inl e \<Rightarrow> Inl e
      | Inr l1 \<Rightarrow>
          (case alloc_output_buffer cfg env s l1 of
             Inl e \<Rightarrow> Inl e
           | Inr l2 \<Rightarrow>
               if m_shrink_by_software s then shrink_geometry cfg s l2
               else if m_crop_by_software s then Inr (crop_geometry cfg s l2)
               else Inr l2))"

subsection \<open>\<open>OpticalFlow_Onboard::_run_optflow\<close>: one iteration of the loop\<close>

text \<open>
  The calls the loop makes on code outside the file, with their arguments. The
  debug recording under \<open>OPTICALFLOW_ONBOARD_RECORD_VIDEO\<close> is not compiled in.
\<close>

datatype event =
    Yuyv_To_Grey ptr u32 ptr
  | Memset ptr u32
  | Memcpy ptr ptr u32
  | Shrink_8bpp ptr ptr u32 u32 u32 u32 u32 u32 u32 u32
  | Crop_8bpp ptr ptr u32 u32 u32 u32 u32
  | Get_Gyro
  | Compute_Flow ptr ptr u32
  | Put_Frame frame

text \<open>
  What the collaborators answer in one iteration: the frame of \<open>get_frame\<close> (or its
  failure), the three rates of the gyro callback, and the quality and the two flow
  components of \<open>compute_flow\<close>. The last two are consulted only when the iteration
  reaches the calls.
\<close>

record 'f iteration =
  get_frame :: "frame option"
  get_gyro :: "'f vector3"
  compute_flow :: "u8 \<times> 'f \<times> 'f"

text \<open>Lines 302 to 308.\<close>

definition convert_frame :: "'f optflow \<Rightarrow> locals \<Rightarrow> frame \<Rightarrow> event list" where
  "convert_frame s l video_frame =
     (if m_format s = V4L2_PIX_FMT_YUYV
      then [Yuyv_To_Grey (data video_frame) (convert_buffer_size l * 2) (convert_buffer l),
            Memset (data video_frame) (convert_buffer_size l * 2),
            Memcpy (data video_frame) (convert_buffer l) (convert_buffer_size l)]
      else [])"

text \<open>Lines 310 to 328: the one normalization the flags select.\<close>

definition normalize_frame :: "config \<Rightarrow> 'f optflow \<Rightarrow> locals \<Rightarrow> frame \<Rightarrow> event list" where
  "normalize_frame cfg s l video_frame =
     (if m_shrink_by_software s
      then [Shrink_8bpp (data video_frame) (output_buffer l)
              (m_camera_output_width s) (m_camera_output_height s)
              (shrink_width_offset l) (shrink_width l)
              (shrink_height_offset l) (shrink_height l)
              (shrink_scale l) (shrink_scale l),
            Memset (data video_frame) (m_camera_output_width s * m_camera_output_height s),
            Memcpy (data video_frame) (output_buffer l) (output_buffer_size l)]
      else if m_crop_by_software s
      then [Crop_8bpp (data video_frame) (output_buffer l)
              (m_camera_output_width s)
              (crop_left l) (u32_of_int (output_width cfg))
              (crop_top l) (u32_of_int (output_height cfg)),
            Memset (data video_frame) (m_camera_output_width s * m_camera_output_height s),
            Memcpy (data video_frame) (output_buffer l) (output_buffer_size l)]
      else [])"

text \<open>Lines 372 to 387: the critical section that fills the integrator.\<close>

definition accumulate ::
  "('f::{zero,plus,times,inverse}) floats \<Rightarrow> frame \<Rightarrow> 'f vector3 \<Rightarrow> u8 \<times> 'f \<times> 'f \<Rightarrow>
     'f optflow \<Rightarrow> 'f optflow" where
  "accumulate fl video_frame gyro_rate flow s =
     (case flow of (qual, flow_rate_x, flow_rate_y) \<Rightarrow>
        let elapsed = timestamp video_frame - timestamp (m_last_video_frame s)
        in s\<lparr>m_pixel_flow_x_integral :=
                m_pixel_flow_x_integral s + flow_rate_x / focal_length_millipx fl,
              m_pixel_flow_y_integral :=
                m_pixel_flow_y_integral s + flow_rate_y / focal_length_millipx fl,
              m_integration_timespan := m_integration_timespan s + elapsed,
              m_gyro_x_integral :=
                m_gyro_x_integral s
                + (vec_x gyro_rate + vec_x (m_last_gyro_rate s)) / float_2 fl * float_of_u32 fl elapsed,
              m_gyro_y_integral :=
                m_gyro_y_integral s
                + (vec_y gyro_rate + vec_y (m_last_gyro_rate s)) / float_2 fl * float_of_u32 fl elapsed,
              m_surface_quality := qual,
              m_data_available := True\<rparr>)"

text \<open>
  Lines 289 to 392: the body of \<open>while(true)\<close>. The result is the driver after the
  iteration with the events of the iteration, or the panic of a failed \<open>get_frame\<close>.
\<close>

definition run_optflow_iteration ::
  "config \<Rightarrow> ('f::{zero,plus,times,inverse}) floats \<Rightarrow> locals \<Rightarrow> 'f iteration \<Rightarrow>
     'f optflow \<Rightarrow> error + ('f optflow \<times> event list)" where
  "run_optflow_iteration cfg fl l inp s =
     (case get_frame inp of
        None \<Rightarrow> Inl Couldnt_Get_Frame
      | Some video_frame \<Rightarrow>
          let ev = convert_frame s l video_frame @ normalize_frame cfg s l video_frame
          in if data (m_last_video_frame s) = NULL
             then Inr (s\<lparr>m_last_video_frame := video_frame\<rparr>, ev)
             else
               let gyro_rate = get_gyro inp;
                   last = m_last_video_frame s
               in Inr ((accumulate fl video_frame gyro_rate (compute_flow inp) s)
                          \<lparr>m_last_video_frame := video_frame, m_last_gyro_rate := gyro_rate\<rparr>,
                       ev @ [Get_Gyro,
                             Compute_Flow (data last) (data video_frame)
                               (timestamp video_frame - timestamp last),
                             Put_Frame last]))"

text \<open>
  The loop has no exit but a panic. Its first \<open>n\<close> iterations are the run over the
  \<open>n\<close> answers of the collaborators; the events are appended in order.
\<close>

fun run_optflow_loop ::
  "config \<Rightarrow> ('f::{zero,plus,times,inverse}) floats \<Rightarrow> locals \<Rightarrow> 'f iteration list \<Rightarrow>
     'f optflow \<times> event list \<Rightarrow> error + ('f optflow \<times> event list)" where
  "run_optflow_loop cfg fl l [] st = Inr st"
| "run_optflow_loop cfg fl l (inp # inps) st =
     (case run_optflow_iteration cfg fl l inp (fst st) of
        Inl e \<Rightarrow> Inl e
      | Inr (s', ev) \<Rightarrow> run_optflow_loop cfg fl l inps (s', snd st @ ev))"

definition run_optflow ::
  "config \<Rightarrow> ('f::{zero,plus,times,inverse}) floats \<Rightarrow> run_env \<Rightarrow> 'f iteration list \<Rightarrow>
     'f optflow \<Rightarrow> error + ('f optflow \<times> event list)" where
  "run_optflow cfg fl env inps s =
     (case run_optflow_setup cfg env s of
        Inl e \<Rightarrow> Inl e
      | Inr l \<Rightarrow> run_optflow_loop cfg fl l inps (s, []))"

subsection \<open>Notions of the specification\<close>

text \<open>The calls of the flow estimator among the events.\<close>

fun is_compute_flow :: "event \<Rightarrow> bool" where
  "is_compute_flow (Compute_Flow prev cur elapsed) = True"
| "is_compute_flow _ = False"

text \<open>An iteration whose \<open>get_frame\<close> delivers a frame with a buffer.\<close>

definition delivered :: "'f iteration \<Rightarrow> bool" where
  "delivered inp = (case get_frame inp of None \<Rightarrow> False | Some f \<Rightarrow> data f \<noteq> NULL)"

text \<open>
  The elapsed time of each iteration of a run, and its trapezoidal term on one axis:
  the timestamp of the frame minus the timestamp of the frame before it, and the sum
  of the rate and of the rate before it, halved, times that elapsed time. \<open>prev\<close>
  and \<open>prev_rate\<close> are the frame and the rate cached before the run.
\<close>

fun elapsed_times :: "frame \<Rightarrow> 'f iteration list \<Rightarrow> u32 list" where
  "elapsed_times prev [] = []"
| "elapsed_times prev (inp # inps) =
     (case get_frame inp of
        None \<Rightarrow> []
      | Some f \<Rightarrow> (timestamp f - timestamp prev) # elapsed_times f inps)"

fun trapezoid_terms ::
  "('f::{zero,plus,times,inverse}) floats \<Rightarrow> ('f vector3 \<Rightarrow> 'f) \<Rightarrow> frame \<Rightarrow> 'f vector3 \<Rightarrow>
     'f iteration list \<Rightarrow> 'f list" where
  "trapezoid_terms fl axis prev prev_rate [] = []"
| "trapezoid_terms fl axis prev prev_rate (inp # inps) =
     (case get_frame inp of
        None \<Rightarrow> []
      | Some f \<Rightarrow>
          ((axis (get_gyro inp) + axis prev_rate) / float_2 fl
             * float_of_u32 fl (timestamp f - timestamp prev))
          # trapezoid_terms fl axis f (get_gyro inp) inps)"

text \<open>
  The three normalization strategies. The strategies an iteration applies are read
  off its calls of \<open>shrink_8bpp\<close> and \<open>crop_8bpp\<close>; an iteration with neither call
  makes no adjustment, and one with a single call has that strategy active.
\<close>

datatype strategy = No_Adjustment | Software_Shrink | Software_Crop

fun strategies_applied :: "event list \<Rightarrow> strategy list" where
  "strategies_applied [] = []"
| "strategies_applied (Shrink_8bpp src dst w h wo sw ho sh sx sy # evs) =
     Software_Shrink # strategies_applied evs"
| "strategies_applied (Crop_8bpp src dst w left cw top' ch # evs) =
     Software_Crop # strategies_applied evs"
| "strategies_applied (ev # evs) = strategies_applied evs"

definition active_strategy :: "event list \<Rightarrow> strategy option" where
  "active_strategy evs =
     (case strategies_applied evs of
        [] \<Rightarrow> Some No_Adjustment
      | [st] \<Rightarrow> Some st
      | _ \<Rightarrow> None)"

section \<open>Sample data\<close>

text \<open>
  Concrete values at which the theorems below are evaluated. The type \<open>float\<close> is
  read as \<open>real\<close> there.
\<close>

definition sample_floats :: "real floats" where
  "sample_floats = \<lparr>float_2 = 2, float_of_u32 = (\<lambda>w. real (unat w)), focal_length_millipx = 4\<rparr>"

definition sample_config :: config where
  "sample_config =
     \<lparr>board_subtype = Minlure, vdev_path_is_null = False, nbufs = 8,
      output_width = 64, output_height = 64, crop_width = 240, crop_height = 240,
      sensor_width = 320, sensor_height = 240\<rparr>"

definition sample_out :: "real data_frame" where
  "sample_out = \<lparr>pixel_flow_x_integral = 9, pixel_flow_y_integral = 9, gyro_x_integral = 9,
     gyro_y_integral = 9, delta_time = 9, quality = 9\<rparr>"

definition sample_dirty :: "real optflow" where
  "sample_dirty = constructed\<lparr>m_data_available := True, m_pixel_flow_x_integral := 1,
     m_pixel_flow_y_integral := 2, m_gyro_x_integral := 3, m_gyro_y_integral := 4,
     m_integration_timespan := 33, m_surface_quality := 200,
     m_last_video_frame := \<lparr>timestamp = 1000, data = 4096\<rparr>,
     m_last_gyro_rate := \<lparr>vec_x = 1, vec_y = 3, vec_z = 0\<rparr>\<rparr>"

definition sample_iteration :: "u32 \<Rightarrow> ptr \<Rightarrow> real \<Rightarrow> real \<Rightarrow> real iteration" where
  "sample_iteration t p gx gy =
     \<lparr>get_frame = Some \<lparr>timestamp = t, data = p\<rparr>,
      get_gyro = \<lparr>vec_x = gx, vec_y = gy, vec_z = 0\<rparr>,
      compute_flow = (150, 8, 12)\<rparr>"

definition sample_drained :: "real optflow" where
  "sample_drained = snd (snd (read sample_dirty sample_out))"

definition sample_three :: "real iteration list" where
  "sample_three =
     [sample_iteration 1040 8192 3 5, sample_iteration 1070 12288 5 1,
      sample_iteration 1100 4096 1 1]"

text \<open>
  A device that answers \<open>set_format\<close> with the geometry \<open>w\<close> by \<open>h\<close> in the format
  \<open>f\<close>, grants or refuses the crop, and lets every other call succeed.
\<close>

definition sample_device :: "u32 \<Rightarrow> u32 \<Rightarrow> u32 \<Rightarrow> bool \<Rightarrow> init_env" where
  "sample_device w h f crop_ok =
     \<lparr>open_device = True, subdev_set_format = True, pixel_formats = [f],
      set_format = (\<lambda>rw rh rf. Some (w, h, f, w, w * h)),
      set_crop = (\<lambda>left top' cw ch. crop_ok),
      allocate_buffers = (\<lambda>n. True),
      pthread_mutex_init = 0, pthread_attr_init = 0, pthread_create = 0\<rparr>"

definition sample_run_env :: run_env where
  "sample_run_env = \<lparr>malloc_convert_buffer = 16384, malloc_output_buffer = 20480\<rparr>"

text \<open>A target that is not square, on the camera geometry 320 by 240.\<close>

definition sample_wide_config :: config where
  "sample_wide_config = sample_config\<lparr>output_width := 64, output_height := 32\<rparr>"

definition sample_wide_driver :: "real optflow" where
  "sample_wide_driver =
     projr (init sample_wide_config (sample_device 320 240 V4L2_PIX_FMT_GREY True) constructed)"

text \<open>The 64 by 64 target on the camera geometry 320 by 240.\<close>

definition sample_qvga_driver :: "real optflow" where
  "sample_qvga_driver =
     projr (init sample_config (sample_device 320 240 V4L2_PIX_FMT_GREY True) constructed)"

text \<open>The same with the crop refused by the device.\<close>

definition sample_uncropped_driver :: "real optflow" where
  "sample_uncropped_driver =
     projr (init sample_config (sample_device 320 240 V4L2_PIX_FMT_GREY False) constructed)"

text \<open>The fourcc code of Motion-JPEG, a format the driver does not support.\<close>

definition V4L2_PIX_FMT_MJPEG :: u32 where
  "V4L2_PIX_FMT_MJPEG = 0x47504A4D"

definition sample_wide_locals :: locals where
  "sample_wide_locals = projr (run_optflow_setup sample_wide_config sample_run_env sample_wide_driver)"

definition sample_qvga_locals :: locals where
  "sample_qvga_locals = projr (run_optflow_setup sample_config sample_run_env sample_qvga_driver)"

lemmas sample_setup_defs =
  sample_run_env_def initial_locals_def run_optflow_setup_def alloc_convert_buffer_def
  alloc_output_buffer_def shrink_geometry_def crop_geometry_def

lemmas sample_init_defs =
  constructed_def sample_config_def sample_wide_config_def sample_device_def zero_vector3_def
  init_def init_negotiate_def init_finish_def init_crop_def init_shrink_def
  requested_format_def u32_of_int_def c_int_div_def Let_def
  V4L2_PIX_FMT_YUYV_def V4L2_PIX_FMT_GREY_def V4L2_PIX_FMT_NV12_def V4L2_PIX_FMT_MJPEG_def

section \<open>The sample reader\<close>

text \<open>
  C3. For every state of the integrator, \<open>read\<close> returns false and leaves the
  caller's record and the driver as they were when \<open>_data_available\<close> is unset.
  When it is set, \<open>read\<close> returns true, the caller's record holds the six
  accumulated fields (the two pixel-flow integrals, the two gyro integrals, the
  accumulated time as \<open>delta_time\<close>, the quality), and afterwards the four
  accumulators and the timespan are zero and the flag is cleared.
\<close>

theorem read_drains:
  fixes s :: "('f::zero) optflow" and frame :: "'f data_frame"
  shows "(\<not> m_data_available s \<longrightarrow> read s frame = (False, frame, s)) \<and>
         (m_data_available s \<longrightarrow>
            (case read s frame of (ret, frame', s') \<Rightarrow>
               ret \<and>
               pixel_flow_x_integral frame' = m_pixel_flow_x_integral s \<and>
               pixel_flow_y_integral frame' = m_pixel_flow_y_integral s \<and>
               gyro_x_integral frame' = m_gyro_x_integral s \<and>
               gyro_y_integral frame' = m_gyro_y_integral s \<and>
               delta_time frame' = m_integration_timespan s \<and>
               quality frame' = m_surface_quality s \<and>
               m_pixel_flow_x_integral s' = 0 \<and>
               m_pixel_flow_y_integral s' = 0 \<and>
               m_gyro_x_integral s' = 0 \<and>
               m_gyro_y_integral s' = 0 \<and>
               m_integration_timespan s' = 0 \<and>
               \<not> m_data_available s'))"
  by (simp add: read_def)

theorem read_drains_witness:
  "\<not> m_data_available (constructed :: real optflow) \<and>
   read (constructed :: real optflow) sample_out = (False, sample_out, constructed) \<and>
   m_data_available sample_dirty \<and>
   fst (read sample_dirty sample_out) \<and>
   fst (snd (read sample_dirty sample_out)) =
     \<lparr>pixel_flow_x_integral = 1, pixel_flow_y_integral = 2, gyro_x_integral = 3,
      gyro_y_integral = 4, delta_time = 33, quality = 200\<rparr> \<and>
   m_gyro_x_integral (snd (snd (read sample_dirty sample_out))) = 0 \<and>
   m_integration_timespan (snd (snd (read sample_dirty sample_out))) = 0 \<and>
   \<not> m_data_available (snd (snd (read sample_dirty sample_out)))"
  using read_drains [of "constructed :: real optflow" sample_out]
    read_drains [of sample_dirty sample_out]
  by (simp add: read_def constructed_def sample_dirty_def sample_out_def)

text \<open>
  C7. For every state of the integrator, when \<open>read\<close> returns true, a second
  \<open>read\<close> on the driver it leaves, with no iteration of the acquisition loop in
  between, returns false.
\<close>

theorem read_twice:
  fixes s :: "('f::zero) optflow"
  assumes "fst (read s frame)"
  shows "\<not> fst (read (snd (snd (read s frame))) frame2)"
  using assms by (simp add: read_def split: if_splits)

theorem read_twice_witness:
  "fst (read sample_dirty sample_out) \<and>
   \<not> fst (read (snd (snd (read sample_dirty sample_out))) sample_out)"
  using read_twice [of sample_dirty sample_out sample_out]
  by (simp add: read_def sample_dirty_def)

text \<open>
  C10. Whenever \<open>read\<close> returns false, the caller's record is the one that was
  passed in and the driver (the four accumulators, the timespan, the quality, the
  flag and every other member) is unchanged.
\<close>

theorem read_false_changes_nothing:
  fixes s :: "('f::zero) optflow"
  assumes "\<not> fst (read s frame)"
  shows "fst (snd (read s frame)) = frame \<and> snd (snd (read s frame)) = s"
  using assms by (simp add: read_def split: if_splits)

theorem read_false_changes_nothing_witness:
  "\<not> fst (read (constructed :: real optflow) sample_out) \<and>
   fst (snd (read (constructed :: real optflow) sample_out)) = sample_out \<and>
   snd (snd (read (constructed :: real optflow) sample_out)) = constructed"
  using read_false_changes_nothing [of "constructed :: real optflow" sample_out]
  by (simp add: read_def constructed_def)

section \<open>The acquisition loop\<close>

text \<open>
  C4. In every iteration of the loop that has a cached previous frame, with
  \<open>elapsed\<close> the timestamp of the current frame minus the timestamp of the previous
  one: the two pixel-flow integrals grow by \<open>flow_x\<close> and \<open>flow_y\<close>, each divided
  by the focal-length constant; the timespan grows by \<open>elapsed\<close>; each gyro integral
  grows by the sum of the current and the previous rate, divided by \<open>2.0f\<close> and
  multiplied by \<open>elapsed\<close>; the quality is the one just computed; the flag
  \<open>_data_available\<close> is set.
\<close>

theorem steady_state_iteration_accumulates:
  fixes s :: "('f::{zero,plus,times,inverse}) optflow"
  assumes "get_frame inp = Some video_frame"
      and "data (m_last_video_frame s) \<noteq> NULL"
  shows "\<exists>s' ev. run_optflow_iteration cfg fl l inp s = Inr (s', ev) \<and>
           m_pixel_flow_x_integral s' =
             m_pixel_flow_x_integral s + fst (snd (compute_flow inp)) / focal_length_millipx fl \<and>
           m_pixel_flow_y_integral s' =
             m_pixel_flow_y_integral s + snd (snd (compute_flow inp)) / focal_length_millipx fl \<and>
           m_integration_timespan s' =
             m_integration_timespan s + (timestamp video_frame - timestamp (m_last_video_frame s)) \<and>
           m_gyro_x_integral s' =
             m_gyro_x_integral s
             + (vec_x (get_gyro inp) + vec_x (m_last_gyro_rate s)) / float_2 fl
               * float_of_u32 fl (timestamp video_frame - timestamp (m_last_video_frame s)) \<and>
           m_gyro_y_integral s' =
             m_gyro_y_integral s
             + (vec_y (get_gyro inp) + vec_y (m_last_gyro_rate s)) / float_2 fl
               * float_of_u32 fl (timestamp video_frame - timestamp (m_last_video_frame s)) \<and>
           m_surface_quality s' = fst (compute_flow inp) \<and>
           m_data_available s'"
  using assms
  by (simp add: run_optflow_iteration_def accumulate_def Let_def split: prod.splits)

theorem steady_state_iteration_accumulates_witness:
  "get_frame (sample_iteration 1040 8192 3 5) = Some \<lparr>timestamp = 1040, data = 8192\<rparr> \<and>
   data (m_last_video_frame sample_dirty) \<noteq> NULL \<and>
   (\<exists>s' ev. run_optflow_iteration sample_config sample_floats initial_locals
               (sample_iteration 1040 8192 3 5) sample_dirty = Inr (s', ev) \<and>
      m_pixel_flow_x_integral s' = 3 \<and>
      m_pixel_flow_y_integral s' = 5 \<and>
      m_integration_timespan s' = 73 \<and>
      m_gyro_x_integral s' = 83 \<and>
      m_gyro_y_integral s' = 164 \<and>
      m_surface_quality s' = 150 \<and>
      m_data_available s')"
  using steady_state_iteration_accumulates
    [of "sample_iteration 1040 8192 3 5" "\<lparr>timestamp = 1040, data = 8192\<rparr>" sample_dirty
        sample_config sample_floats initial_locals]
  by (simp add: sample_iteration_def sample_dirty_def sample_floats_def)

subsection \<open>The two branches of an iteration\<close>

lemma iteration_warm_up:
  fixes s :: "('f::{zero,plus,times,inverse}) optflow"
  assumes "get_frame inp = Some video_frame" and "data (m_last_video_frame s) = NULL"
  shows "run_optflow_iteration cfg fl l inp s =
           Inr (s\<lparr>m_last_video_frame := video_frame\<rparr>,
                convert_frame s l video_frame @ normalize_frame cfg s l video_frame)"
  using assms by (simp add: run_optflow_iteration_def)

lemma iteration_steady:
  fixes s :: "('f::{zero,plus,times,inverse}) optflow"
  assumes "get_frame inp = Some video_frame" and "data (m_last_video_frame s) \<noteq> NULL"
  shows "run_optflow_iteration cfg fl l inp s =
           Inr ((accumulate fl video_frame (get_gyro inp) (compute_flow inp) s)
                  \<lparr>m_last_video_frame := video_frame, m_last_gyro_rate := get_gyro inp\<rparr>,
                convert_frame s l video_frame @ normalize_frame cfg s l video_frame
                @ [Get_Gyro,
                   Compute_Flow (data (m_last_video_frame s)) (data video_frame)
                     (timestamp video_frame - timestamp (m_last_video_frame s)),
                   Put_Frame (m_last_video_frame s)])"
  using assms by (simp add: run_optflow_iteration_def Let_def)

lemma no_flow_in_convert: "filter is_compute_flow (convert_frame s l f) = []"
  by (simp add: convert_frame_def)

lemma no_flow_in_normalize: "filter is_compute_flow (normalize_frame cfg s l f) = []"
  by (simp add: normalize_frame_def)

lemma no_gyro_in_convert: "Get_Gyro \<notin> set (convert_frame s l f)"
  by (simp add: convert_frame_def)

lemma no_gyro_in_normalize: "Get_Gyro \<notin> set (normalize_frame cfg s l f)"
  by (simp add: normalize_frame_def)

lemma convert_frame_cached [simp]:
  "convert_frame (s\<lparr>m_last_video_frame := f\<rparr>) l v = convert_frame s l v"
  by (simp add: convert_frame_def)

lemma normalize_frame_cached [simp]:
  "normalize_frame cfg (s\<lparr>m_last_video_frame := f\<rparr>) l v = normalize_frame cfg s l v"
  by (simp add: normalize_frame_def)

text \<open>\<open>init\<close> writes neither the frame cache nor the integrator.\<close>

lemma init_keeps_cache:
  fixes s :: "('f::zero) optflow"
  assumes "init cfg env s = Inr s'"
  shows "m_last_video_frame s' = m_last_video_frame s \<and> m_last_gyro_rate s' = m_last_gyro_rate s
         \<and> m_gyro_x_integral s' = m_gyro_x_integral s \<and> m_gyro_y_integral s' = m_gyro_y_integral s"
  using assms
  by (auto simp: init_def init_negotiate_def init_finish_def init_crop_def init_shrink_def Let_def
           split: if_splits option.splits prod.splits)

subsection \<open>Warm-up\<close>

text \<open>
  C6. From a driver with no cached previous frame, the iteration on the first frame
  calls no flow computation and changes nothing of the driver but the cached frame
  (so the integrator is as before); the iteration on the second frame calls the flow
  computation exactly once, on the first and the second frame, and changes the
  integrator by exactly one accumulation.
\<close>

theorem warm_up_then_one_flow:
  fixes s :: "('f::{zero,plus,times,inverse}) optflow"
  assumes "data (m_last_video_frame s) = NULL"
      and "get_frame inp1 = Some frame1" and "data frame1 \<noteq> NULL"
      and "get_frame inp2 = Some frame2"
  shows "\<exists>ev1 ev2 s2.
           run_optflow_iteration cfg fl l inp1 s = Inr (s\<lparr>m_last_video_frame := frame1\<rparr>, ev1) \<and>
           filter is_compute_flow ev1 = [] \<and>
           run_optflow_iteration cfg fl l inp2 (s\<lparr>m_last_video_frame := frame1\<rparr>) = Inr (s2, ev2) \<and>
           s2 = (accumulate fl frame2 (get_gyro inp2) (compute_flow inp2)
                   (s\<lparr>m_last_video_frame := frame1\<rparr>))
                  \<lparr>m_last_video_frame := frame2, m_last_gyro_rate := get_gyro inp2\<rparr> \<and>
           filter is_compute_flow ev2 =
             [Compute_Flow (data frame1) (data frame2) (timestamp frame2 - timestamp frame1)] \<and>
           run_optflow_loop cfg fl l [inp1, inp2] (s, []) = Inr (s2, ev1 @ ev2)"
proof -
  let ?s1 = "s\<lparr>m_last_video_frame := frame1\<rparr>"
  let ?ev1 = "convert_frame s l frame1 @ normalize_frame cfg s l frame1"
  have first: "run_optflow_iteration cfg fl l inp1 s = Inr (?s1, ?ev1)"
    by (rule iteration_warm_up [OF assms(2) assms(1)])
  have cached: "data (m_last_video_frame ?s1) \<noteq> NULL"
    using assms(3) by simp
  note second = iteration_steady [OF assms(4) cached, of cfg fl l]
  show ?thesis
    using first second
    by (simp add: no_flow_in_convert no_flow_in_normalize)
qed

theorem warm_up_then_one_flow_witness:
  "data (m_last_video_frame (constructed :: real optflow)) = NULL \<and>
   get_frame (sample_iteration 1000 4096 9 9) = Some \<lparr>timestamp = 1000, data = 4096\<rparr> \<and>
   data \<lparr>timestamp = 1000, data = 4096\<rparr> \<noteq> NULL \<and>
   get_frame (sample_iteration 1040 8192 3 5) = Some \<lparr>timestamp = 1040, data = 8192\<rparr> \<and>
   run_optflow_iteration sample_config sample_floats initial_locals
       (sample_iteration 1000 4096 9 9) constructed =
     Inr (constructed\<lparr>m_last_video_frame := \<lparr>timestamp = 1000, data = 4096\<rparr>\<rparr>, []) \<and>
   (\<exists>s2. run_optflow_loop sample_config sample_floats initial_locals
            [sample_iteration 1000 4096 9 9, sample_iteration 1040 8192 3 5] (constructed, []) =
          Inr (s2, [Get_Gyro, Compute_Flow 4096 8192 40,
                    Put_Frame \<lparr>timestamp = 1000, data = 4096\<rparr>]) \<and>
          m_integration_timespan s2 = 40 \<and> m_pixel_flow_x_integral s2 = 2 \<and>
          m_surface_quality s2 = 150 \<and> m_data_available s2)"
  using warm_up_then_one_flow
    [of "constructed :: real optflow" "sample_iteration 1000 4096 9 9"
        "\<lparr>timestamp = 1000, data = 4096\<rparr>" "sample_iteration 1040 8192 3 5"
        "\<lparr>timestamp = 1040, data = 8192\<rparr>" sample_config sample_floats initial_locals]
  by (simp add: constructed_def sample_iteration_def sample_floats_def
        run_optflow_iteration_def accumulate_def Let_def convert_frame_def normalize_frame_def
        V4L2_PIX_FMT_YUYV_def)

text \<open>
  C9. After \<open>init\<close> on the constructed driver, the warm-up iteration does not call the
  gyro callback and leaves the cached rate at the default zero vector. In the first
  iteration with a cached frame the previous rate of the trapezoid is therefore that
  zero: each gyro integral becomes \<open>0 + (rate + 0) / 2.0f * elapsed\<close>, which is
  \<open>0 + rate / 2.0f * elapsed\<close> whenever adding zero leaves the rate as it is. The
  cached rate becomes the current rate at the end of that iteration.
\<close>

theorem first_gyro_term_uses_default_rate:
  fixes s :: "('f::{zero,plus,times,inverse}) optflow"
  assumes "init cfg env constructed = Inr s"
      and "get_frame inp1 = Some frame1" and "data frame1 \<noteq> NULL"
      and "get_frame inp2 = Some frame2"
  shows "\<exists>s1 ev1 s2 ev2.
           run_optflow_iteration cfg fl l inp1 s = Inr (s1, ev1) \<and>
           Get_Gyro \<notin> set ev1 \<and>
           m_last_gyro_rate s1 = zero_vector3 \<and>
           run_optflow_iteration cfg fl l inp2 s1 = Inr (s2, ev2) \<and>
           m_gyro_x_integral s2 =
             0 + (vec_x (get_gyro inp2) + 0) / float_2 fl
                 * float_of_u32 fl (timestamp frame2 - timestamp frame1) \<and>
           m_gyro_y_integral s2 =
             0 + (vec_y (get_gyro inp2) + 0) / float_2 fl
                 * float_of_u32 fl (timestamp frame2 - timestamp frame1) \<and>
           (vec_x (get_gyro inp2) + 0 = vec_x (get_gyro inp2) \<longrightarrow>
              m_gyro_x_integral s2 =
                0 + vec_x (get_gyro inp2) / float_2 fl
                    * float_of_u32 fl (timestamp frame2 - timestamp frame1)) \<and>
           (vec_y (get_gyro inp2) + 0 = vec_y (get_gyro inp2) \<longrightarrow>
              m_gyro_y_integral s2 =
                0 + vec_y (get_gyro inp2) / float_2 fl
                    * float_of_u32 fl (timestamp frame2 - timestamp frame1)) \<and>
           m_last_gyro_rate s2 = get_gyro inp2"
proof -
  have keep: "m_last_video_frame s = m_last_video_frame (constructed :: 'f optflow)"
       "m_last_gyro_rate s = m_last_gyro_rate (constructed :: 'f optflow)"
       "m_gyro_x_integral s = m_gyro_x_integral (constructed :: 'f optflow)"
       "m_gyro_y_integral s = m_gyro_y_integral (constructed :: 'f optflow)"
    using init_keeps_cache [OF assms(1)] by simp_all
  have no_frame: "data (m_last_video_frame s) = NULL"
    and rate: "m_last_gyro_rate s = zero_vector3"
    and gx: "m_gyro_x_integral s = 0" and gy: "m_gyro_y_integral s = 0"
    using keep by (simp_all add: constructed_def)
  let ?s1 = "s\<lparr>m_last_video_frame := frame1\<rparr>"
  have first: "run_optflow_iteration cfg fl l inp1 s =
                 Inr (?s1, convert_frame s l frame1 @ normalize_frame cfg s l frame1)"
    by (rule iteration_warm_up [OF assms(2) no_frame])
  have cached: "data (m_last_video_frame ?s1) \<noteq> NULL"
    using assms(3) by simp
  note second = iteration_steady [OF assms(4) cached, of cfg fl l]
  show ?thesis
    using first second rate gx gy
    by (simp add: no_gyro_in_convert no_gyro_in_normalize accumulate_def zero_vector3_def Let_def
             split: prod.splits)
qed

theorem first_gyro_term_uses_default_rate_witness:
  "init sample_config (sample_device 64 64 V4L2_PIX_FMT_GREY True) (constructed :: real optflow) =
     Inr (projr (init sample_config (sample_device 64 64 V4L2_PIX_FMT_GREY True) constructed)) \<and>
   get_frame (sample_iteration 1000 4096 9 9) = Some \<lparr>timestamp = 1000, data = 4096\<rparr> \<and>
   data \<lparr>timestamp = 1000, data = 4096\<rparr> \<noteq> NULL \<and>
   get_frame (sample_iteration 1040 8192 3 5) = Some \<lparr>timestamp = 1040, data = 8192\<rparr> \<and>
   (\<exists>s2 tr. run_optflow_loop sample_config sample_floats initial_locals
              [sample_iteration 1000 4096 9 9, sample_iteration 1040 8192 3 5]
              (projr (init sample_config (sample_device 64 64 V4L2_PIX_FMT_GREY True) constructed), [])
            = Inr (s2, tr) \<and>
      m_gyro_x_integral s2 = 3 / 2 * 40 \<and>
      m_gyro_y_integral s2 = 5 / 2 * 40 \<and>
      m_last_gyro_rate s2 = \<lparr>vec_x = 3, vec_y = 5, vec_z = 0\<rparr>)"
  using first_gyro_term_uses_default_rate
    [of sample_config "sample_device 64 64 V4L2_PIX_FMT_GREY True"
        "projr (init sample_config (sample_device 64 64 V4L2_PIX_FMT_GREY True) constructed)"
        "sample_iteration 1000 4096 9 9" "\<lparr>timestamp = 1000, data = 4096\<rparr>"
        "sample_iteration 1040 8192 3 5" "\<lparr>timestamp = 1040, data = 8192\<rparr>"
        sample_floats initial_locals]
  by (simp add: constructed_def sample_iteration_def sample_floats_def sample_config_def
        sample_device_def zero_vector3_def
        init_def init_negotiate_def init_finish_def init_crop_def init_shrink_def
        requested_format_def u32_of_int_def
        run_optflow_iteration_def accumulate_def Let_def convert_frame_def normalize_frame_def
        V4L2_PIX_FMT_YUYV_def V4L2_PIX_FMT_GREY_def V4L2_PIX_FMT_NV12_def)

subsection \<open>Additivity\<close>

lemma unat_sum_list_mod:
  "unat (sum_list (ws :: u32 list)) = sum_list (map unat ws) mod 2 ^ 32"
  by (induction ws) (simp_all add: unat_word_ariths mod_simps)

lemma length_elapsed_times:
  "list_all delivered inps \<Longrightarrow> length (elapsed_times prev inps) = length inps"
  by (induction inps arbitrary: prev) (auto simp: delivered_def split: option.splits)

lemma loop_steady:
  fixes s :: "('f::{zero,plus,times,inverse}) optflow"
  assumes "list_all delivered inps" and "data (m_last_video_frame s) \<noteq> NULL"
  shows "\<exists>s' tr'. run_optflow_loop cfg fl l inps (s, tr) = Inr (s', tr') \<and>
           m_integration_timespan s' =
             m_integration_timespan s + sum_list (elapsed_times (m_last_video_frame s) inps) \<and>
           m_gyro_x_integral s' =
             foldl (+) (m_gyro_x_integral s)
               (trapezoid_terms fl vec_x (m_last_video_frame s) (m_last_gyro_rate s) inps) \<and>
           m_gyro_y_integral s' =
             foldl (+) (m_gyro_y_integral s)
               (trapezoid_terms fl vec_y (m_last_video_frame s) (m_last_gyro_rate s) inps) \<and>
           (m_data_available s' \<longleftrightarrow> inps \<noteq> [] \<or> m_data_available s)"
  using assms
proof (induction inps arbitrary: s tr)
  case Nil
  then show ?case by simp
next
  case (Cons inp inps)
  from Cons.prems(1) have here: "delivered inp" and rest: "list_all delivered inps"
    by simp_all
  from here obtain f where f: "get_frame inp = Some f" and nz: "data f \<noteq> NULL"
    by (auto simp: delivered_def split: option.splits)
  let ?s1 = "(accumulate fl f (get_gyro inp) (compute_flow inp) s)
               \<lparr>m_last_video_frame := f, m_last_gyro_rate := get_gyro inp\<rparr>"
  note step = iteration_steady [OF f Cons.prems(2), of cfg fl l]
  have cached: "data (m_last_video_frame ?s1) \<noteq> NULL"
    using nz by simp
  from Cons.IH [OF rest cached] obtain s' tr' where
    run: "run_optflow_loop cfg fl l inps (?s1, tr @ convert_frame s l f @ normalize_frame cfg s l f
                @ [Get_Gyro,
                   Compute_Flow (data (m_last_video_frame s)) (data f)
                     (timestamp f - timestamp (m_last_video_frame s)),
                   Put_Frame (m_last_video_frame s)]) = Inr (s', tr')"
    and t: "m_integration_timespan s' =
             m_integration_timespan ?s1 + sum_list (elapsed_times (m_last_video_frame ?s1) inps)"
    and gx: "m_gyro_x_integral s' =
             foldl (+) (m_gyro_x_integral ?s1)
               (trapezoid_terms fl vec_x (m_last_video_frame ?s1) (m_last_gyro_rate ?s1) inps)"
    and gy: "m_gyro_y_integral s' =
             foldl (+) (m_gyro_y_integral ?s1)
               (trapezoid_terms fl vec_y (m_last_video_frame ?s1) (m_last_gyro_rate ?s1) inps)"
    and d: "m_data_available s' \<longleftrightarrow> inps \<noteq> [] \<or> m_data_available ?s1"
    by blast
  have acc: "m_integration_timespan ?s1 =
               m_integration_timespan s + (timestamp f - timestamp (m_last_video_frame s))"
       "m_gyro_x_integral ?s1 = m_gyro_x_integral s
          + (vec_x (get_gyro inp) + vec_x (m_last_gyro_rate s)) / float_2 fl
            * float_of_u32 fl (timestamp f - timestamp (m_last_video_frame s))"
       "m_gyro_y_integral ?s1 = m_gyro_y_integral s
          + (vec_y (get_gyro inp) + vec_y (m_last_gyro_rate s)) / float_2 fl
            * float_of_u32 fl (timestamp f - timestamp (m_last_video_frame s))"
       "m_data_available ?s1"
    by (simp_all add: accumulate_def Let_def split: prod.splits)
  show ?case
    using step run t gx gy d acc f
    by (simp add: add.assoc)
qed

text \<open>
  C5. Let the integrator be drained (timespan and gyro integrals zero) and a frame be
  cached. After \<open>N \<ge> 1\<close> consecutive iterations that each deliver a frame, with no
  \<open>read\<close> in between, one \<open>read\<close> succeeds; its \<open>delta_time\<close> is the sum of the \<open>N\<close>
  elapsed times, and each gyro integral is the sum of the \<open>N\<close> trapezoidal terms,
  added one after the other onto zero. The sums are those of the program's types:
  \<open>delta_time\<close> is a \<open>uint32_t\<close> and equals the sum modulo \<open>2^32\<close>, hence the sum of
  the numbers whenever that is below \<open>2^32\<close>; the gyro sum is the left-to-right
  \<open>float\<close> sum.
\<close>

theorem accumulation_is_additive:
  fixes s :: "('f::{zero,plus,times,inverse}) optflow"
  assumes "inps \<noteq> []" and "list_all delivered inps"
      and "data (m_last_video_frame s) \<noteq> NULL"
      and "m_integration_timespan s = 0"
      and "m_gyro_x_integral s = 0" and "m_gyro_y_integral s = 0"
  shows "\<exists>s' tr'. run_optflow_loop cfg fl l inps (s, tr) = Inr (s', tr') \<and>
           length (elapsed_times (m_last_video_frame s) inps) = length inps \<and>
           fst (read s' out) \<and>
           delta_time (fst (snd (read s' out))) =
             sum_list (elapsed_times (m_last_video_frame s) inps) \<and>
           (sum_list (map unat (elapsed_times (m_last_video_frame s) inps)) < 2 ^ 32 \<longrightarrow>
              unat (delta_time (fst (snd (read s' out)))) =
                sum_list (map unat (elapsed_times (m_last_video_frame s) inps))) \<and>
           gyro_x_integral (fst (snd (read s' out))) =
             foldl (+) 0 (trapezoid_terms fl vec_x (m_last_video_frame s) (m_last_gyro_rate s) inps) \<and>
           gyro_y_integral (fst (snd (read s' out))) =
             foldl (+) 0 (trapezoid_terms fl vec_y (m_last_video_frame s) (m_last_gyro_rate s) inps)"
proof -
  from loop_steady [OF assms(2,3), of cfg fl l tr] obtain s' tr' where
    run: "run_optflow_loop cfg fl l inps (s, tr) = Inr (s', tr')"
    and t: "m_integration_timespan s' =
             m_integration_timespan s + sum_list (elapsed_times (m_last_video_frame s) inps)"
    and gx: "m_gyro_x_integral s' =
             foldl (+) (m_gyro_x_integral s)
               (trapezoid_terms fl vec_x (m_last_video_frame s) (m_last_gyro_rate s) inps)"
    and gy: "m_gyro_y_integral s' =
             foldl (+) (m_gyro_y_integral s)
               (trapezoid_terms fl vec_y (m_last_video_frame s) (m_last_gyro_rate s) inps)"
    and d: "m_data_available s' \<longleftrightarrow> inps \<noteq> [] \<or> m_data_available s"
    by blast
  have dirty: "m_data_available s'"
    using d assms(1) by simp
  have out: "fst (read s' out)"
       "delta_time (fst (snd (read s' out))) = m_integration_timespan s'"
       "gyro_x_integral (fst (snd (read s' out))) = m_gyro_x_integral s'"
       "gyro_y_integral (fst (snd (read s' out))) = m_gyro_y_integral s'"
    using dirty by (simp_all add: read_def)
  show ?thesis
    using run out t gx gy assms(4,5,6) length_elapsed_times [OF assms(2)]
    by (simp add: unat_sum_list_mod)
qed

theorem accumulation_is_additive_witness:
  "sample_three \<noteq> [] \<and> list_all delivered sample_three \<and>
   data (m_last_video_frame sample_drained) \<noteq> NULL \<and>
   m_integration_timespan sample_drained = 0 \<and>
   m_gyro_x_integral sample_drained = 0 \<and> m_gyro_y_integral sample_drained = 0 \<and>
   (\<exists>s' tr'. run_optflow_loop sample_config sample_floats initial_locals sample_three
                (sample_drained, []) = Inr (s', tr') \<and>
      fst (read s' sample_out) \<and>
      delta_time (fst (snd (read s' sample_out))) = 40 + 30 + 30 \<and>
      gyro_x_integral (fst (snd (read s' sample_out))) =
        ((3 + 1) / 2 * 40 + (5 + 3) / 2 * 30) + (1 + 5) / 2 * 30 \<and>
      gyro_y_integral (fst (snd (read s' sample_out))) =
        ((5 + 3) / 2 * 40 + (1 + 5) / 2 * 30) + (1 + 1) / 2 * 30)"
  using accumulation_is_additive [of sample_three sample_drained sample_config sample_floats
      initial_locals "[]" sample_out]
  by (simp add: sample_three_def sample_drained_def sample_dirty_def sample_iteration_def
        sample_floats_def delivered_def read_def constructed_def
        run_optflow_iteration_def accumulate_def Let_def)

section \<open>Initialization\<close>

text \<open>
  C8. In an \<open>init\<close> that reaches the negotiation (the driver is not yet initialized,
  the device opens, the sub-device of the Bebop accepts its format, \<open>set_format\<close>
  answers), every negotiated format other than NV12, GREY and YUYV ends \<open>init\<close> in
  the panic "format not supported", with no driver returned; for each of the three
  formats \<open>init\<close> passes the check and continues with the geometry, the crop, the
  buffers and the thread, and returns the initialized driver when those succeed.
\<close>

theorem init_format_check:
  fixes s :: "('f::zero) optflow"
  assumes "\<not> m_initialized s" and "\<not> vdev_path_is_null cfg" and "open_device env"
      and "board_subtype cfg = Bebop \<longrightarrow> subdev_set_format env"
      and "set_format env (u32_of_int (output_width cfg)) (u32_of_int (output_height cfg))
             (requested_format cfg env s) = Some (w, h, f, bpl, sz)"
  shows "(f \<notin> {V4L2_PIX_FMT_NV12, V4L2_PIX_FMT_GREY, V4L2_PIX_FMT_YUYV} \<longrightarrow>
            init cfg env s = Inl Format_Not_Supported) \<and>
         (f \<in> {V4L2_PIX_FMT_NV12, V4L2_PIX_FMT_GREY, V4L2_PIX_FMT_YUYV} \<longrightarrow>
            init cfg env s \<noteq> Inl Format_Not_Supported \<and>
            init cfg env s =
              init_finish cfg env
                (init_crop cfg env
                   (init_shrink cfg
                      (s\<lparr>m_width := w, m_height := h, m_format := f,
                         m_bytesperline := bpl, m_sizeimage := sz\<rparr>))) \<and>
            (allocate_buffers env (nbufs cfg) \<and> pthread_mutex_init env = 0 \<and>
             pthread_attr_init env = 0 \<and> pthread_create env = 0 \<longrightarrow>
               (\<exists>s'. init cfg env s = Inr s' \<and> m_initialized s' \<and> m_format s' = f)))"
  using assms
  by (auto simp: init_def init_negotiate_def init_finish_def init_crop_def init_shrink_def Let_def
           split: if_splits)

theorem init_format_check_witness:
  "\<not> m_initialized (constructed :: real optflow) \<and> \<not> vdev_path_is_null sample_config \<and>
   open_device (sample_device 64 64 V4L2_PIX_FMT_MJPEG True) \<and>
   board_subtype sample_config \<noteq> Bebop \<and>
   V4L2_PIX_FMT_MJPEG \<notin> {V4L2_PIX_FMT_NV12, V4L2_PIX_FMT_GREY, V4L2_PIX_FMT_YUYV} \<and>
   init sample_config (sample_device 64 64 V4L2_PIX_FMT_MJPEG True) (constructed :: real optflow) =
     Inl Format_Not_Supported \<and>
   V4L2_PIX_FMT_YUYV \<in> {V4L2_PIX_FMT_NV12, V4L2_PIX_FMT_GREY, V4L2_PIX_FMT_YUYV} \<and>
   (\<exists>s'. init sample_config (sample_device 64 64 V4L2_PIX_FMT_YUYV True)
            (constructed :: real optflow) = Inr s' \<and>
      m_initialized s' \<and> m_format s' = V4L2_PIX_FMT_YUYV)"
  using init_format_check
    [of "constructed :: real optflow" sample_config "sample_device 64 64 V4L2_PIX_FMT_MJPEG True"
        64 64 V4L2_PIX_FMT_MJPEG 64 "64 * 64"]
    init_format_check
    [of "constructed :: real optflow" sample_config "sample_device 64 64 V4L2_PIX_FMT_YUYV True"
        64 64 V4L2_PIX_FMT_YUYV 64 "64 * 64"]
  by (simp add: sample_init_defs)

subsection \<open>The flags and the strategy of a run\<close>

lemma strategies_applied_append:
  "strategies_applied (xs @ ys) = strategies_applied xs @ strategies_applied ys"
  by (induction xs rule: strategies_applied.induct) simp_all

lemma strategies_convert: "strategies_applied (convert_frame s l f) = []"
  by (simp add: convert_frame_def)

lemma strategies_normalize:
  "strategies_applied (normalize_frame cfg s l f) =
     (if m_shrink_by_software s then [Software_Shrink]
      else if m_crop_by_software s then [Software_Crop] else [])"
  by (simp add: normalize_frame_def)

lemma iteration_strategies:
  fixes s :: "('f::{zero,plus,times,inverse}) optflow"
  assumes "get_frame inp = Some video_frame"
  shows "\<exists>s' ev. run_optflow_iteration cfg fl l inp s = Inr (s', ev) \<and>
           strategies_applied ev =
             (if m_shrink_by_software s then [Software_Shrink]
              else if m_crop_by_software s then [Software_Crop] else []) \<and>
           m_shrink_by_software s' = m_shrink_by_software s \<and>
           m_crop_by_software s' = m_crop_by_software s"
proof (cases "data (m_last_video_frame s) = NULL")
  case True
  show ?thesis
    using iteration_warm_up [OF assms True, of cfg fl l]
    by (simp add: strategies_applied_append strategies_convert strategies_normalize)
next
  case False
  show ?thesis
    using iteration_steady [OF assms False, of cfg fl l]
    by (simp add: strategies_applied_append strategies_convert strategies_normalize
          accumulate_def Let_def split: prod.splits)
qed

lemma init_flags:
  fixes s0 :: "('f::zero) optflow"
  assumes "init cfg env s0 = Inr s" and "\<not> m_initialized s0"
  shows "\<exists>w h f bpl sz.
           set_format env (u32_of_int (output_width cfg)) (u32_of_int (output_height cfg))
             (requested_format cfg env s0) = Some (w, h, f, bpl, sz) \<and>
           (m_shrink_by_software s \<longleftrightarrow>
              \<not> (w = u32_of_int (output_width cfg) \<and> h = u32_of_int (output_height cfg))) \<and>
           (m_crop_by_software s \<longleftrightarrow>
              \<not> set_crop env (u32_of_int (c_int_div (sensor_width cfg - sensor_height cfg) 2)) 0
                   (u32_of_int (crop_width cfg)) (u32_of_int (crop_height cfg)))"
  using assms
  by (auto simp: init_def init_negotiate_def init_finish_def init_crop_def init_shrink_def Let_def
           split: if_splits option.splits prod.splits)

text \<open>
  C1, as stated, fails: on a camera that answers 320 by 240 for the 64 by 64 target
  and refuses the crop, \<open>init\<close> succeeds with both \<open>_shrink_by_software\<close> and
  \<open>_crop_by_software\<close> set.
\<close>

theorem init_sets_both_flags:
  "\<not> isl (init sample_config (sample_device 320 240 V4L2_PIX_FMT_GREY False)
             (constructed :: real optflow)) \<and>
   m_shrink_by_software sample_uncropped_driver \<and>
   m_crop_by_software sample_uncropped_driver"
  by (simp add: sample_uncropped_driver_def sample_init_defs)

text \<open>
  C1, amended. \<open>init\<close> sets the shrink flag exactly when the negotiated geometry
  differs from the target and the crop flag exactly when the device refuses the
  crop, so both can be set for one run. In every iteration of the loop on a
  delivered frame exactly one strategy is active all the same: software shrink when
  the shrink flag is set (with the crop flag set or not), software crop when only the
  crop flag is set, no adjustment when neither is set; the iteration leaves the
  flags as they are.
\<close>

theorem one_strategy_per_frame:
  fixes s0 :: "('f::{zero,plus,times,inverse}) optflow"
  assumes "init cfg env s0 = Inr s" and "\<not> m_initialized s0"
      and "get_frame inp = Some video_frame"
  shows "\<exists>w h f bpl sz s' ev.
           set_format env (u32_of_int (output_width cfg)) (u32_of_int (output_height cfg))
             (requested_format cfg env s0) = Some (w, h, f, bpl, sz) \<and>
           (m_shrink_by_software s \<longleftrightarrow>
              \<not> (w = u32_of_int (output_width cfg) \<and> h = u32_of_int (output_height cfg))) \<and>
           (m_crop_by_software s \<longleftrightarrow>
              \<not> set_crop env (u32_of_int (c_int_div (sensor_width cfg - sensor_height cfg) 2)) 0
                   (u32_of_int (crop_width cfg)) (u32_of_int (crop_height cfg))) \<and>
           run_optflow_iteration cfg fl l inp s = Inr (s', ev) \<and>
           active_strategy ev =
             Some (if m_shrink_by_software s then Software_Shrink
                   else if m_crop_by_software s then Software_Crop else No_Adjustment) \<and>
           m_shrink_by_software s' = m_shrink_by_software s \<and>
           m_crop_by_software s' = m_crop_by_software s"
proof -
  from init_flags [OF assms(1,2)] obtain w h f bpl sz where
    neg: "set_format env (u32_of_int (output_width cfg)) (u32_of_int (output_height cfg))
             (requested_format cfg env s0) = Some (w, h, f, bpl, sz)"
    and sh: "m_shrink_by_software s \<longleftrightarrow>
              \<not> (w = u32_of_int (output_width cfg) \<and> h = u32_of_int (output_height cfg))"
    and cr: "m_crop_by_software s \<longleftrightarrow>
              \<not> set_crop env (u32_of_int (c_int_div (sensor_width cfg - sensor_height cfg) 2)) 0
                   (u32_of_int (crop_width cfg)) (u32_of_int (crop_height cfg))"
    by blast
  from iteration_strategies [OF assms(3), of cfg fl l s] obtain s' ev where
    run: "run_optflow_iteration cfg fl l inp s = Inr (s', ev)"
    and st: "strategies_applied ev =
             (if m_shrink_by_software s then [Software_Shrink]
              else if m_crop_by_software s then [Software_Crop] else [])"
    and keep: "m_shrink_by_software s' = m_shrink_by_software s"
              "m_crop_by_software s' = m_crop_by_software s"
    by blast
  have act: "active_strategy ev =
             Some (if m_shrink_by_software s then Software_Shrink
                   else if m_crop_by_software s then Software_Crop else No_Adjustment)"
    using st by (simp add: active_strategy_def)
  show ?thesis
    using neg sh cr run act keep by blast
qed

theorem one_strategy_per_frame_witness:
  "init sample_config (sample_device 320 240 V4L2_PIX_FMT_GREY False) (constructed :: real optflow) =
     Inr sample_uncropped_driver \<and>
   \<not> m_initialized (constructed :: real optflow) \<and>
   get_frame (sample_iteration 1000 4096 9 9) = Some \<lparr>timestamp = 1000, data = 4096\<rparr> \<and>
   m_shrink_by_software sample_uncropped_driver \<and> m_crop_by_software sample_uncropped_driver \<and>
   (\<exists>s' ev. run_optflow_iteration sample_config sample_floats initial_locals
               (sample_iteration 1000 4096 9 9) sample_uncropped_driver = Inr (s', ev) \<and>
      active_strategy ev = Some Software_Shrink)"
  using one_strategy_per_frame
    [of sample_config "sample_device 320 240 V4L2_PIX_FMT_GREY False" "constructed :: real optflow"
        sample_uncropped_driver "sample_iteration 1000 4096 9 9"
        "\<lparr>timestamp = 1000, data = 4096\<rparr>" sample_floats initial_locals]
  by (simp add: sample_uncropped_driver_def sample_iteration_def sample_init_defs) blast

section \<open>The shrink factor and the shrunk region\<close>

lemma setup_shrink:
  assumes "run_optflow_setup cfg env s = Inr l" and "m_shrink_by_software s"
  shows "\<exists>l0. shrink_geometry cfg s l0 = Inr l"
  using assms
  by (auto simp: run_optflow_setup_def split: sum.splits)

lemma shrink_geometry_fields:
  assumes "shrink_geometry cfg s l0 = Inr l"
  shows "shrink_scale l =
           (if m_camera_output_width s > m_camera_output_height s
            then m_camera_output_height s div u32_of_int (output_height cfg)
            else m_camera_output_width s div u32_of_int (output_width cfg))"
    and "shrink_width l = u32_of_int (output_width cfg) * shrink_scale l"
    and "shrink_height l = u32_of_int (output_height cfg) * shrink_scale l"
    and "shrink_width_offset l = (m_camera_output_width s - shrink_width l) div 2"
    and "shrink_height_offset l = (m_camera_output_height s - shrink_height l) div 2"
  using assms
  by (auto simp: shrink_geometry_def Let_def split: if_splits)

lemma unat_u32_of_int:
  "0 \<le> i \<Longrightarrow> i < 2 ^ 32 \<Longrightarrow> unat (u32_of_int i) = nat i"
  by (simp add: u32_of_int_def unat_eq_nat_uint uint_word_of_int)

text \<open>The target times the quotient does not wrap around.\<close>

lemma unat_mult_div_le:
  fixes t c :: u32
  assumes "t \<noteq> 0"
  shows "unat (t * (c div t)) = unat t * (unat c div unat t)"
proof -
  have "unat t * (unat c div unat t) \<le> unat c"
    by simp
  also have "unat c < 2 ^ 32"
    using unsigned_less [of c, where 'a = nat] by simp
  finally have small: "unat t * (unat c div unat t) < 2 ^ 32" .
  have d: "unat (c div t) = unat c div unat t"
    by (rule unat_div)
  have "unat (t * (c div t)) = unat t * unat (c div t) mod 2 ^ 32"
    by (simp add: unat_mult_lem unat_word_ariths(2))
  then show ?thesis
    using small d by simp
qed

lemma unat_half_diff:
  fixes c r :: u32
  assumes "unat r \<le> unat c"
  shows "unat ((c - r) div 2) = (unat c - unat r) div 2"
proof -
  have "r \<le> c"
    using assms by (simp add: word_le_nat_alt)
  then have "unat (c - r) = unat c - unat r"
    by (rule unat_sub)
  then show ?thesis
    by (simp add: unat_div)
qed

text \<open>
  With one target \<open>t\<close> for both axes and the factor taken from the smaller camera
  dimension \<open>c1\<close>: the factor is the smaller of the two quotients and the region
  fits into both dimensions.
\<close>

lemma square_region:
  fixes t c1 c2 :: u32
  assumes "t \<noteq> 0" and "unat c1 \<le> unat c2"
  shows "unat (c1 div t) = min (unat c1 div unat t) (unat c2 div unat t)"
    and "unat (t * (c1 div t)) = unat t * unat (c1 div t)"
    and "unat (t * (c1 div t)) \<le> unat c1"
    and "unat (t * (c1 div t)) \<le> unat c2"
proof -
  have d: "unat (c1 div t) = unat c1 div unat t"
    by (rule unat_div)
  have "unat c1 div unat t \<le> unat c2 div unat t"
    using assms(2) by (rule div_le_mono)
  then show "unat (c1 div t) = min (unat c1 div unat t) (unat c2 div unat t)"
    using d by simp
  show m: "unat (t * (c1 div t)) = unat t * unat (c1 div t)"
    using unat_mult_div_le [OF assms(1), of c1] d by simp
  show le: "unat (t * (c1 div t)) \<le> unat c1"
    using m d by simp
  show "unat (t * (c1 div t)) \<le> unat c2"
    using le assms(2) by simp
qed

text \<open>
  C2, as stated, fails when the target is not square: for the target 64 by 32 and a
  camera frame of 320 by 240 the factor is \<open>240 div 32 = 7\<close>, while the smaller of the
  two per-axis factors is \<open>320 div 64 = 5\<close>.
\<close>

theorem shrink_factor_not_minimum:
  "m_shrink_by_software sample_wide_driver \<and>
   \<not> isl (run_optflow_setup sample_wide_config sample_run_env sample_wide_driver) \<and>
   unat (shrink_scale sample_wide_locals) = 7 \<and>
   min (unat (m_camera_output_width sample_wide_driver) div nat (output_width sample_wide_config))
       (unat (m_camera_output_height sample_wide_driver) div nat (output_height sample_wide_config))
     = 5 \<and>
   unat (shrink_scale sample_wide_locals) \<noteq>
     min (unat (m_camera_output_width sample_wide_driver) div nat (output_width sample_wide_config))
         (unat (m_camera_output_height sample_wide_driver) div nat (output_height sample_wide_config))"
  by (simp add: sample_wide_locals_def sample_wide_driver_def sample_setup_defs sample_init_defs)

text \<open>
  C2, amended. When the shrink strategy is active, the factor is the camera height
  divided by the target height if the camera frame is wider than high, and the camera
  width divided by the target width otherwise. For a square target (as the 64 by 64
  one) and every camera geometry, this is the minimum of the two per-axis factors,
  the region of target times factor fits into the camera frame, and it is centred:
  its offsets are half the width and half the height left over. For the 320 by 240
  frame and the 64 by 64 target the factor is 3 and the region is 192 by 192 at the
  offsets 64 and 24.
\<close>

theorem shrink_factor_and_region:
  assumes "run_optflow_setup cfg env s = Inr l" and "m_shrink_by_software s"
  shows "shrink_scale l =
           (if m_camera_output_width s > m_camera_output_height s
            then m_camera_output_height s div u32_of_int (output_height cfg)
            else m_camera_output_width s div u32_of_int (output_width cfg)) \<and>
         (output_width cfg = output_height cfg \<and> 0 < output_width cfg \<and> output_width cfg < 2 ^ 32 \<longrightarrow>
            unat (shrink_scale l) =
              min (unat (m_camera_output_width s) div nat (output_width cfg))
                  (unat (m_camera_output_height s) div nat (output_height cfg)) \<and>
            unat (shrink_width l) = nat (output_width cfg) * unat (shrink_scale l) \<and>
            unat (shrink_height l) = nat (output_height cfg) * unat (shrink_scale l) \<and>
            unat (shrink_width l) \<le> unat (m_camera_output_width s) \<and>
            unat (shrink_height l) \<le> unat (m_camera_output_height s) \<and>
            unat (shrink_width_offset l) =
              (unat (m_camera_output_width s) - unat (shrink_width l)) div 2 \<and>
            unat (shrink_height_offset l) =
              (unat (m_camera_output_height s) - unat (shrink_height l)) div 2)"
proof -
  from setup_shrink [OF assms] obtain l0 where g: "shrink_geometry cfg s l0 = Inr l"
    by blast
  note fields = shrink_geometry_fields [OF g]
  let ?cw = "m_camera_output_width s" and ?ch = "m_camera_output_height s"
  let ?t = "u32_of_int (output_width cfg)"
  have general: "shrink_scale l =
           (if ?cw > ?ch then ?ch div u32_of_int (output_height cfg)
            else ?cw div u32_of_int (output_width cfg))"
    by (rule fields(1))
  have square: "unat (shrink_scale l) =
              min (unat ?cw div nat (output_width cfg)) (unat ?ch div nat (output_height cfg)) \<and>
            unat (shrink_width l) = nat (output_width cfg) * unat (shrink_scale l) \<and>
            unat (shrink_height l) = nat (output_height cfg) * unat (shrink_scale l) \<and>
            unat (shrink_width l) \<le> unat ?cw \<and>
            unat (shrink_height l) \<le> unat ?ch \<and>
            unat (shrink_width_offset l) = (unat ?cw - unat (shrink_width l)) div 2 \<and>
            unat (shrink_height_offset l) = (unat ?ch - unat (shrink_height l)) div 2"
    if sq: "output_width cfg = output_height cfg" and pos: "0 < output_width cfg"
      and small: "output_width cfg < 2 ^ 32"
  proof -
    have ut: "unat ?t = nat (output_width cfg)"
      using pos small by (simp add: unat_u32_of_int)
    have tnz: "?t \<noteq> 0"
    proof
      assume "?t = 0"
      then have "unat ?t = 0" by simp
      then show False using ut pos by simp
    qed
    have same: "u32_of_int (output_height cfg) = ?t" "nat (output_height cfg) = nat (output_width cfg)"
      using sq by simp_all
    show ?thesis
    proof (cases "?cw > ?ch")
      case True
      then have le: "unat ?ch \<le> unat ?cw"
        by (simp add: word_less_nat_alt)
      have sc: "shrink_scale l = ?ch div ?t"
        using general True same by simp
      note r = square_region [OF tnz le]
      have w: "shrink_width l = ?t * (?ch div ?t)" and h: "shrink_height l = ?t * (?ch div ?t)"
        using fields(2,3) sc same by simp_all
      have ow: "unat (shrink_width_offset l) = (unat ?cw - unat (shrink_width l)) div 2"
        using fields(4) unat_half_diff [of "shrink_width l" ?cw] r(4) w by simp
      have oh: "unat (shrink_height_offset l) = (unat ?ch - unat (shrink_height l)) div 2"
        using fields(5) unat_half_diff [of "shrink_height l" ?ch] r(3) h by simp
      have m: "unat (shrink_scale l) = min (unat ?cw div unat ?t) (unat ?ch div unat ?t)"
        using r(1) sc by (simp only: min.commute)
      have uw: "unat (shrink_width l) = unat ?t * unat (shrink_scale l)"
        using r(2) w sc by simp
      have uh: "unat (shrink_height l) = unat ?t * unat (shrink_scale l)"
        using r(2) h sc by simp
      have lw: "unat (shrink_width l) \<le> unat ?cw"
        using r(4) w by simp
      have lh: "unat (shrink_height l) \<le> unat ?ch"
        using r(3) h by simp
      show ?thesis
        unfolding same(2) ut [symmetric]
        using m uw uh lw lh ow oh by blast
    next
      case False
      then have le: "unat ?cw \<le> unat ?ch"
        by (simp add: word_less_nat_alt)
      have sc: "shrink_scale l = ?cw div ?t"
        using general False by simp
      note r = square_region [OF tnz le]
      have w: "shrink_width l = ?t * (?cw div ?t)" and h: "shrink_height l = ?t * (?cw div ?t)"
        using fields(2,3) sc same by simp_all
      have ow: "unat (shrink_width_offset l) = (unat ?cw - unat (shrink_width l)) div 2"
        using fields(4) unat_half_diff [of "shrink_width l" ?cw] r(3) w by simp
      have oh: "unat (shrink_height_offset l) = (unat ?ch - unat (shrink_height l)) div 2"
        using fields(5) unat_half_diff [of "shrink_height l" ?ch] r(4) h by simp
      have m: "unat (shrink_scale l) = min (unat ?cw div unat ?t) (unat ?ch div unat ?t)"
        using r(1) sc by simp
      have uw: "unat (shrink_width l) = unat ?t * unat (shrink_scale l)"
        using r(2) w sc by simp
      have uh: "unat (shrink_height l) = unat ?t * unat (shrink_scale l)"
        using r(2) h sc by simp
      have lw: "unat (shrink_width l) \<le> unat ?cw"
        using r(3) w by simp
      have lh: "unat (shrink_height l) \<le> unat ?ch"
        using r(4) h by simp
      show ?thesis
        unfolding same(2) ut [symmetric]
        using m uw uh lw lh ow oh by blast
    qed
  qed
  show ?thesis
    using general square by blast
qed

theorem shrink_factor_and_region_witness:
  "run_optflow_setup sample_config sample_run_env sample_qvga_driver = Inr sample_qvga_locals \<and>
   m_shrink_by_software sample_qvga_driver \<and>
   output_width sample_config = output_height sample_config \<and>
   0 < output_width sample_config \<and> output_width sample_config < 2 ^ 32 \<and>
   m_camera_output_width sample_qvga_driver = 320 \<and>
   m_camera_output_height sample_qvga_driver = 240 \<and>
   output_width sample_config = 64 \<and>
   unat (shrink_scale sample_qvga_locals) = 3 \<and>
   unat (shrink_width sample_qvga_locals) = 192 \<and>
   unat (shrink_height sample_qvga_locals) = 192 \<and>
   unat (shrink_width_offset sample_qvga_locals) = 64 \<and>
   unat (shrink_height_offset sample_qvga_locals) = 24"
  using shrink_factor_and_region
    [of sample_config sample_run_env sample_qvga_driver sample_qvga_locals]
  by (simp add: sample_qvga_locals_def sample_qvga_driver_def sample_setup_defs sample_init_defs)

end
